theory Spec2Isabelle
  imports Complex_Main "HOL-Library.List_Lexorder"
begin

section \<open>Python values used by \<open>benchmark_analysis.py\<close>\<close>

text \<open>
  A Python \<open>str\<close> is a sequence of Unicode code points, so it is modelled as a list of
  natural numbers (one per code point); \<open>ascii\<close> embeds an ASCII literal.  A Python
  \<open>float\<close> is modelled by the rational number its decimal text denotes: IEEE rounding
  and overflow to infinity are outside the model.
\<close>

type_synonym pystr = "nat list"

definition ascii :: "string \<Rightarrow> pystr" where
  "ascii s = map of_char s"

text \<open>
  The exceptions the script can meet.  \<open>TimeoutExpired\<close> is
  \<open>subprocess.TimeoutExpired\<close>; \<open>PyException msg\<close> stands for any other subclass of
  \<open>Exception\<close> whose \<open>str\<close> is \<open>msg\<close> (\<open>CalledProcessError\<close>, \<open>OSError\<close>, ...).
\<close>

datatype exn =
    TimeoutExpired
  | ValueError pystr
  | TypeError pystr
  | PyException pystr

fun str_exn :: "exn \<Rightarrow> pystr" where
  "str_exn TimeoutExpired = ascii ''Command timed out''"
| "str_exn (ValueError m) = m"
| "str_exn (TypeError m) = m"
| "str_exn (PyException m) = m"

section \<open>\<open>extract_metric\<close>\<close>

text \<open>\<open>needle in hay\<close> for Python strings: literal substring test.\<close>

fun starts_with :: "'a list \<Rightarrow> 'a list \<Rightarrow> bool" where
  "starts_with [] hay = True"
| "starts_with (n # ns) [] = False"
| "starts_with (n # ns) (h # hs) = (n = h \<and> starts_with ns hs)"

fun py_in :: "'a list \<Rightarrow> 'a list \<Rightarrow> bool" where
  "py_in needle [] = (needle = [])"
| "py_in needle (h # hs) = (starts_with needle (h # hs) \<or> py_in needle hs)"

text \<open>\<open>s.split(sep)\<close> for a one-character separator: never an empty list.\<close>

fun py_split :: "'a \<Rightarrow> 'a list \<Rightarrow> 'a list list" where
  "py_split sep [] = [[]]"
| "py_split sep (c # cs) =
     (if c = sep then [] # py_split sep cs
      else (case py_split sep cs of
              [] \<Rightarrow> [[c]]
            | l # ls \<Rightarrow> (c # l) # ls))"

text \<open>\<open>line.replace(',', '')\<close>: code point 44 is the comma.\<close>

definition strip_commas :: "pystr \<Rightarrow> pystr" where
  "strip_commas line = filter (\<lambda>c. c \<noteq> 44) line"

text \<open>
  The character class \<open>[\d.]\<close>.  The digits are the ASCII digits \<open>0\<close>..\<open>9\<close> (code points
  48..57) and 46 is the full stop; decimal digits of other scripts, which \<open>\d\<close> also
  accepts on a \<open>str\<close>, are outside the model.
\<close>

definition is_digit :: "nat \<Rightarrow> bool" where
  "is_digit c = (48 \<le> c \<and> c \<le> 57)"

definition is_num_char :: "nat \<Rightarrow> bool" where
  "is_num_char c = (is_digit c \<or> c = 46)"

text \<open>
  \<open>re.search(r'[\d.]+', s)\<close>: the leftmost, longest run of characters of the class;
  \<open>None\<close> when the string has no such character.  The result is \<open>match.group()\<close>.
\<close>

definition re_search_num :: "pystr \<Rightarrow> pystr option" where
  "re_search_num s =
     (let t = takeWhile is_num_char (dropWhile (\<lambda>c. \<not> is_num_char c) s)
      in if t = [] then None else Some t)"

text \<open>
  \<open>float(t)\<close> on a text made of digits and full stops, the only texts the pattern can
  hand over: digits with at most one full stop and at least one digit denote a number,
  everything else raises \<open>ValueError\<close> with Python's message.
\<close>

definition digits_val :: "pystr \<Rightarrow> nat" where
  "digits_val ds = foldl (\<lambda>a d. 10 * a + (d - 48)) 0 ds"

definition float_msg :: "pystr \<Rightarrow> pystr" where
  "float_msg t = ascii ''could not convert string to float: '' @ [39] @ t @ [39]"

definition py_float :: "pystr \<Rightarrow> exn + rat" where
  "py_float t =
     (let ip = takeWhile is_digit t; rest = dropWhile is_digit t
      in case rest of
           [] \<Rightarrow> if ip = [] then Inl (ValueError (float_msg t))
                 else Inr (of_nat (digits_val ip))
         | c # fp \<Rightarrow>
             if c = 46 \<and> list_all is_digit fp \<and> (ip \<noteq> [] \<or> fp \<noteq> [])
             then Inr (of_nat (digits_val ip) + of_nat (digits_val fp) / 10 ^ length fp)
             else Inl (ValueError (float_msg t)))"

text \<open>
  The loop of \<open>extract_metric\<close> over the lines: a line without the label, or with the
  label but without a match of the pattern, falls through to the next line; the first
  line with both returns (or raises) from \<open>float\<close>; the end of the loop returns \<open>None\<close>.
\<close>

fun extract_lines :: "pystr \<Rightarrow> pystr list \<Rightarrow> exn + rat option" where
  "extract_lines metric_name [] = Inr None"
| "extract_lines metric_name (line # rest) =
     (if py_in metric_name line then
        (case re_search_num (strip_commas line) of
           Some t \<Rightarrow> (case py_float t of Inl e \<Rightarrow> Inl e | Inr v \<Rightarrow> Inr (Some v))
         | None \<Rightarrow> extract_lines metric_name rest)
      else extract_lines metric_name rest)"

definition extract_metric :: "pystr \<Rightarrow> pystr \<Rightarrow> exn + rat option" where
  "extract_metric output metric_name = extract_lines metric_name (py_split 10 output)"

section \<open>The world outside the script\<close>

text \<open>
  \<open>run_benchmark\<close> touches the world three times: \<open>tempfile.TemporaryDirectory()\<close>
  hands out a fresh directory, \<open>shutil.copy2\<close> copies the sample (or raises), and
  \<open>subprocess.check_output\<close> returns the combined output of the tool (or raises
  \<open>TimeoutExpired\<close>, \<open>CalledProcessError\<close>, \<open>OSError\<close>, ...).  What the world
  answers at the \<open>i\<close>-th call of \<open>run_benchmark\<close> is an \<open>invocation\<close>; a \<open>world\<close>
  fixes the answers of a whole run, and every theorem holds for all worlds.  Creating
  and removing the scratch directory are taken to succeed.
\<close>

record invocation =
  tmpdir :: pystr
  copy_result :: "exn option"
  tool_result :: "exn + pystr"

type_synonym world = "nat \<Rightarrow> invocation"

text \<open>
  The dictionary a run returns: the three result keys, or the single key \<open>error\<close>.
\<close>

datatype run_result =
    RunOk "rat option" "rat option" pystr
  | RunError pystr

text \<open>
  The observable state: how many runs were started, which scratch directories exist,
  and the trace.  \<open>Invoke cmd\<close>: the external tool was started with the command line
  \<open>cmd\<close>.  \<open>Run n serial r\<close>: the call \<open>run_benchmark\<close> for the sample named \<open>n\<close> in
  the given mode was left with \<open>r\<close>, an exception (\<open>Inl\<close>) or a returned dictionary.
\<close>

datatype event = Invoke "pystr list" | Run pystr bool "exn + run_result"

record state =
  ncalls :: nat
  dirs :: "pystr list"
  events :: "event list"

text \<open>
  A sample is a path of the samples directory, seen through the two things \<open>main\<close>
  reads from it: \<open>sample.name\<close> and \<open>sample.stat().st_size\<close>, the size in bytes.
\<close>

record sample =
  sname :: pystr
  st_size :: nat

section \<open>\<open>run_benchmark\<close>\<close>

definition EXE_PATH :: pystr where
  "EXE_PATH = ascii
     ''/Users/Sakuzy/code/rust/MacinMeter-DynamicRange-Tool/target/release/MacinMeter-DynamicRange-Tool-foo_dr''"

text \<open>The two labels of the tool's output: run time and processing speed.\<close>

definition label_time :: pystr where
  "label_time = [0x8FD0, 0x884C, 0x65F6, 0x95F4]"

definition label_speed :: pystr where
  "label_speed = [0x5904, 0x7406, 0x901F, 0x5EA6]"

definition build_cmd :: "pystr \<Rightarrow> bool \<Rightarrow> pystr list" where
  "build_cmd tmp serial = [EXE_PATH, tmp] @ (if serial then [ascii ''--serial''] else [])"

text \<open>The body of the \<open>try\<close>: the first exception raised leaves it.\<close>

definition try_body :: "exn + pystr \<Rightarrow> exn + run_result" where
  "try_body r =
     (case r of
        Inl e \<Rightarrow> Inl e
      | Inr output \<Rightarrow>
          (case extract_metric output label_time of
             Inl e \<Rightarrow> Inl e
           | Inr time_sec \<Rightarrow>
               (case extract_metric output label_speed of
                  Inl e \<Rightarrow> Inl e
                | Inr speed_mbs \<Rightarrow> Inr (RunOk time_sec speed_mbs (take 500 output)))))"

text \<open>The two \<open>except\<close> clauses, in the source's order.\<close>

definition try_except :: "exn + run_result \<Rightarrow> run_result" where
  "try_except r =
     (case r of
        Inr v \<Rightarrow> v
      | Inl TimeoutExpired \<Rightarrow> RunError (ascii ''Timeout'')
      | Inl e \<Rightarrow> RunError (str_exn e))"

text \<open>
  The context manager: the directory exists during the body and is removed when the
  body is left, by a return or by an exception (the \<open>Inl\<close> results pass through).
\<close>

definition with_TemporaryDirectory ::
  "pystr \<Rightarrow> (state \<Rightarrow> 'a \<times> state) \<Rightarrow> state \<Rightarrow> 'a \<times> state" where
  "with_TemporaryDirectory d body st =
     (case body (st\<lparr>dirs := d # dirs st\<rparr>) of
        (r, st') \<Rightarrow> (r, st'\<lparr>dirs := removeAll d (dirs st')\<rparr>))"

text \<open>
  \<open>Inl e\<close> is an exception that leaves \<open>run_benchmark\<close>: the copy stands before the
  \<open>try\<close>, so what it raises is not caught.
\<close>

definition run_benchmark ::
  "world \<Rightarrow> sample \<Rightarrow> bool \<Rightarrow> state \<Rightarrow> (exn + run_result) \<times> state" where
  "run_benchmark w sample_path serial st =
     (let env = w (ncalls st)
      in case with_TemporaryDirectory (tmpdir env)
                (\<lambda>st1. case copy_result env of
                          Some e \<Rightarrow> (Inl e, st1)
                        | None \<Rightarrow>
                            (let cmd = build_cmd (tmpdir env) serial;
                                 st2 = st1\<lparr>events := events st1 @ [Invoke cmd]\<rparr>
                             in (Inr (try_except (try_body (tool_result env))), st2)))
                (st\<lparr>ncalls := Suc (ncalls st)\<rparr>) of
           (r, st') \<Rightarrow>
             (r, st'\<lparr>events := events st' @ [Run (sname sample_path) serial r]\<rparr>))"

section \<open>\<open>main\<close>: the loop over the samples\<close>

record comparison =
  name :: pystr
  size_mb :: int
  serial_time :: "rat option"
  parallel_time :: "rat option"
  serial_speed :: "rat option"
  parallel_speed :: "rat option"
  speedup :: rat

text \<open>
  Console output is not modelled, except that the format specification \<open>:.2f\<close> raises
  \<open>TypeError\<close> on \<open>None\<close>.  The success line formats the time, then the speed.
\<close>

fun fmt_2f :: "rat option \<Rightarrow> exn + unit" where
  "fmt_2f None =
     Inl (TypeError (ascii ''unsupported format string passed to NoneType.__format__''))"
| "fmt_2f (Some v) = Inr ()"

definition print_ok :: "rat option \<Rightarrow> rat option \<Rightarrow> exn + unit" where
  "print_ok t s = (case fmt_2f t of Inl e \<Rightarrow> Inl e | Inr u \<Rightarrow> fmt_2f s)"

text \<open>Truth value and division of values that are a float or \<open>None\<close>.\<close>

fun py_truthy :: "rat option \<Rightarrow> bool" where
  "py_truthy None = False"
| "py_truthy (Some v) = (v \<noteq> 0)"

fun py_div :: "rat option \<Rightarrow> rat option \<Rightarrow> exn + rat" where
  "py_div (Some a) (Some b) =
     (if b = 0 then Inl (PyException (ascii ''float division by zero'')) else Inr (a / b))"
| "py_div a b = Inl (TypeError (ascii ''unsupported operand type(s) for /''))"

text \<open>\<open>serial_result['time'] / parallel_result['time'] if parallel_result['time'] else 0\<close>\<close>

definition compute_speedup :: "rat option \<Rightarrow> rat option \<Rightarrow> exn + rat" where
  "compute_speedup serial_t parallel_t =
     (if py_truthy parallel_t then py_div serial_t parallel_t else Inr 0)"

text \<open>
  One pass of the loop body.  \<open>Inl e\<close>: the exception \<open>e\<close> leaves \<open>main\<close>;
  \<open>Inr None\<close>: \<open>continue\<close>; \<open>Inr (Some r)\<close>: \<open>r\<close> is appended to \<open>results\<close>.  The pause
  between the two runs changes nothing that is modelled.
\<close>

definition process_sample ::
  "world \<Rightarrow> sample \<Rightarrow> state \<Rightarrow> (exn + comparison option) \<times> state" where
  "process_sample w smp st =
     (let filesize_mb = int (st_size smp) div (1024 * 1024)
      in case run_benchmark w smp True st of
           (Inl e, st1) \<Rightarrow> (Inl e, st1)
         | (Inr (RunError msg), st1) \<Rightarrow> (Inr None, st1)
         | (Inr (RunOk s_time s_speed s_out), st1) \<Rightarrow>
             (case print_ok s_time s_speed of
                Inl e \<Rightarrow> (Inl e, st1)
              | Inr u \<Rightarrow>
                  (case run_benchmark w smp False st1 of
                     (Inl e, st2) \<Rightarrow> (Inl e, st2)
                   | (Inr (RunError msg), st2) \<Rightarrow> (Inr None, st2)
                   | (Inr (RunOk p_time p_speed p_out), st2) \<Rightarrow>
                       (case print_ok p_time p_speed of
                          Inl e \<Rightarrow> (Inl e, st2)
                        | Inr u \<Rightarrow>
                            (case compute_speedup s_time p_time of
                               Inl e \<Rightarrow> (Inl e, st2)
                             | Inr sp \<Rightarrow>
                                 (Inr (Some \<lparr>name = sname smp, size_mb = filesize_mb,
                                             serial_time = s_time, parallel_time = p_time,
                                             serial_speed = s_speed, parallel_speed = p_speed,
                                             speedup = sp\<rparr>), st2))))))"

fun main_loop ::
  "world \<Rightarrow> sample list \<Rightarrow> comparison list \<Rightarrow> state \<Rightarrow> (exn + comparison list) \<times> state" where
  "main_loop w [] results st = (Inr results, st)"
| "main_loop w (smp # rest) results st =
     (case process_sample w smp st of
        (Inl e, st') \<Rightarrow> (Inl e, st')
      | (Inr None, st') \<Rightarrow> main_loop w rest results st'
      | (Inr (Some r), st') \<Rightarrow> main_loop w rest (results @ [r]) st')"

section \<open>\<open>main\<close>: the size classes\<close>

datatype bucket = Small | Medium | Large

record bucket_summary =
  label :: bucket
  count :: nat
  mean_speedup :: rat

text \<open>One summary line, printed only when the class has members.\<close>

definition summary_line :: "bucket \<Rightarrow> comparison list \<Rightarrow> bucket_summary list" where
  "summary_line b rs =
     (if rs \<noteq> [] then
        [\<lparr>label = b, count = length rs,
          mean_speedup = sum_list (map speedup rs) / of_nat (length rs)\<rparr>]
      else [])"

definition aggregate :: "comparison list \<Rightarrow> bucket_summary list" where
  "aggregate results =
     (let small = filter (\<lambda>r. size_mb r < 100) results;
          medium = filter (\<lambda>r. 100 \<le> size_mb r \<and> size_mb r < 400) results;
          large = filter (\<lambda>r. size_mb r \<ge> 400) results
      in summary_line Small small @ summary_line Medium medium @ summary_line Large large)"

section \<open>\<open>main\<close>\<close>

text \<open>
  The samples directory: \<open>None\<close> when it does not exist, otherwise its entries.
  \<open>Path.glob\<close> yields nothing unless the path is a directory, and \<open>sorted\<close> orders the
  paths of one directory by name.
\<close>

type_synonym directory = "sample list option"

definition ends_with :: "'a list \<Rightarrow> 'a list \<Rightarrow> bool" where
  "ends_with suffix s = starts_with (rev suffix) (rev s)"

definition glob_flac :: "directory \<Rightarrow> sample list" where
  "glob_flac d =
     (case d of
        None \<Rightarrow> []
      | Some entries \<Rightarrow> filter (\<lambda>e. ends_with (ascii ''.flac'') (sname e)) entries)"

record report =
  found :: nat
  table :: "comparison list"
  summaries :: "bucket_summary list"

definition main :: "directory \<Rightarrow> world \<Rightarrow> state \<Rightarrow> (exn + report) \<times> state" where
  "main d w st =
     (let samples = sort_key sname (glob_flac d)
      in case main_loop w samples [] st of
           (Inl e, st') \<Rightarrow> (Inl e, st')
         | (Inr results, st') \<Rightarrow>
             (Inr \<lparr>found = length samples, table = results,
                   summaries = aggregate results\<rparr>, st'))"

section \<open>The size classes as the specification words them\<close>

text \<open>
  Small is a size below 100, medium a size from 100 up to but not including 400, large a
  size of 400 or more.  One summary for every class that has members, in the order
  small, medium, large, with the number of members and the mean of their speedups.
\<close>

definition spec_bucket :: "int \<Rightarrow> bucket" where
  "spec_bucket s =
     (if s < 100 then Small else if 100 \<le> s \<and> s < 400 then Medium else Large)"

definition spec_aggregate :: "comparison list \<Rightarrow> bucket_summary list" where
  "spec_aggregate rs =
     concat (map (\<lambda>b. let members = filter (\<lambda>r. spec_bucket (size_mb r) = b) rs
                       in if members = [] then []
                          else [\<lparr>label = b, count = length members,
                                 mean_speedup =
                                   sum_list (map speedup members) / of_nat (length members)\<rparr>])
                 [Small, Medium, Large])"

section \<open>Predicates used in the statements\<close>

text \<open>
  A record is \<open>measured\<close> when both elapsed times are present, the parallel one is not
  negative, and the speedup is their quotient, or 0 when the parallel time is 0.
\<close>

definition measured :: "comparison \<Rightarrow> bool" where
  "measured r =
     (case (serial_time r, parallel_time r) of
        (Some s, Some p) \<Rightarrow> 0 \<le> p \<and> speedup r = (if 0 < p then s / p else 0)
      | _ \<Rightarrow> False)"

text \<open>A run has failed when it raised or returned the \<open>error\<close> dictionary.\<close>

fun run_failed :: "exn + run_result \<Rightarrow> bool" where
  "run_failed (Inl e) = True"
| "run_failed (Inr (RunError m)) = True"
| "run_failed (Inr (RunOk t s out)) = False"

text \<open>The part of the trace written between two states.\<close>

definition new_events :: "state \<Rightarrow> state \<Rightarrow> event list" where
  "new_events st st' = drop (length (events st)) (events st')"


section \<open>The extractor as the specification words it\<close>


section \<open>Example runs\<close>

text \<open>
  A directory with two samples of 50 and 150 MB and a file that is not a sample, tool
  outputs with both labels, and worlds given by the list of their first answers.
\<close>

definition tool_output :: "string \<Rightarrow> string \<Rightarrow> pystr" where
  "tool_output t s =
     label_time @ ascii '': '' @ ascii t @ ascii '' s'' @ [10] @
     label_speed @ ascii '': '' @ ascii s @ ascii '' MB/s''"

definition env_ok :: "string \<Rightarrow> string \<Rightarrow> string \<Rightarrow> invocation" where
  "env_ok d t s =
     \<lparr>tmpdir = ascii d, copy_result = None, tool_result = Inr (tool_output t s)\<rparr>"

definition env_raises :: "string \<Rightarrow> exn \<Rightarrow> invocation" where
  "env_raises d e = \<lparr>tmpdir = ascii d, copy_result = None, tool_result = Inl e\<rparr>"

definition world_of :: "invocation list \<Rightarrow> world" where
  "world_of envs i =
     (if i < length envs then envs ! i
      else env_raises ''/tmp/x'' (PyException (ascii ''not available'')))"

definition st_init :: state where
  "st_init = \<lparr>ncalls = 0, dirs = [], events = []\<rparr>"

definition sample_a :: sample where
  "sample_a = \<lparr>sname = ascii ''a.flac'', st_size = 52428800\<rparr>"

definition sample_b :: sample where
  "sample_b = \<lparr>sname = ascii ''b.flac'', st_size = 157286400\<rparr>"

definition corpus :: directory where
  "corpus = Some [sample_b, \<lparr>sname = ascii ''notes.txt'', st_size = 12\<rparr>, sample_a]"

definition world_ok :: world where
  "world_ok = world_of
     [env_ok ''/tmp/s0'' ''10.0'' ''5.5'', env_ok ''/tmp/s1'' ''4.0'' ''1,234.5'',
      env_ok ''/tmp/s2'' ''10.0'' ''5.5'', env_ok ''/tmp/s3'' ''4.0'' ''1,234.5'']"

text \<open>A world where the parallel run of the first sample reports a run time of zero.\<close>

definition world_zero :: world where
  "world_zero = world_of
     [env_ok ''/tmp/s0'' ''10.0'' ''5.5'', env_ok ''/tmp/s1'' ''0.00'' ''5.5'']"

definition world_timeout :: world where
  "world_timeout = world_of
     [env_raises ''/tmp/s0'' TimeoutExpired,
      env_ok ''/tmp/s1'' ''10.0'' ''5.5'', env_ok ''/tmp/s2'' ''4.0'' ''1,234.5'']"

definition copy_error :: exn where
  "copy_error = PyException (ascii ''[Errno 2] No such file or directory'')"

definition world_copy_fails :: world where
  "world_copy_fails = world_of
     [\<lparr>tmpdir = ascii ''/tmp/s0'', copy_result = Some copy_error, tool_result = Inr []\<rparr>,
      env_ok ''/tmp/s1'' ''10.0'' ''5.5'', env_ok ''/tmp/s2'' ''4.0'' ''1,234.5'']"

text \<open>An output with the speed line only: the run-time label is missing.\<close>

definition output_no_time :: pystr where
  "output_no_time = label_speed @ ascii '': 5.5 MB/s''"

definition world_no_time :: world where
  "world_no_time = world_of
     [\<lparr>tmpdir = ascii ''/tmp/s0'', copy_result = None, tool_result = Inr output_no_time\<rparr>,
      env_ok ''/tmp/s1'' ''10.0'' ''5.5'', env_ok ''/tmp/s2'' ''4.0'' ''1,234.5'']"


definition output_ellipsis :: pystr where
  "output_ellipsis = label_time @ ascii ''... 12.34 s''"

definition output_version :: pystr where
  "output_version = ascii ''v1.2.3 '' @ label_time @ ascii '': 5 s''"

text \<open>The record of a sample in the example runs, where every serial run reports 10 s
  and every parallel run 4 s.\<close>

definition row :: "string \<Rightarrow> int \<Rightarrow> comparison" where
  "row n mb =
     \<lparr>name = ascii n, size_mb = mb, serial_time = Some 10, parallel_time = Some 4,
      serial_speed = Some (11 / 2), parallel_speed = Some (2469 / 2), speedup = 5 / 2\<rparr>"

section \<open>What one call of \<open>run_benchmark\<close> does\<close>

lemma rb_fst:
  "fst (run_benchmark w smp serial st) =
     (case copy_result (w (ncalls st)) of
        Some e \<Rightarrow> Inl e
      | None \<Rightarrow> Inr (try_except (try_body (tool_result (w (ncalls st))))))"
  by (simp add: run_benchmark_def with_TemporaryDirectory_def Let_def split: option.split)

lemma rb_ncalls: "ncalls (snd (run_benchmark w smp serial st)) = Suc (ncalls st)"
  by (simp add: run_benchmark_def with_TemporaryDirectory_def Let_def split: option.split)

lemma rb_dirs:
  "dirs (snd (run_benchmark w smp serial st)) = removeAll (tmpdir (w (ncalls st))) (dirs st)"
  by (simp add: run_benchmark_def with_TemporaryDirectory_def Let_def split: option.split)

lemma rb_events:
  "events (snd (run_benchmark w smp serial st)) =
     events st @
     (case copy_result (w (ncalls st)) of
        Some e \<Rightarrow> []
      | None \<Rightarrow> [Invoke (build_cmd (tmpdir (w (ncalls st))) serial)]) @
     [Run (sname smp) serial (fst (run_benchmark w smp serial st))]"
  by (simp add: run_benchmark_def with_TemporaryDirectory_def Let_def split: option.split)

text \<open>
  Claim C8.  Every call of \<open>run_benchmark\<close> extends the trace by at most one command
  line, and that command line is the executable path, then the scratch directory of
  this call as the only positional argument, then \<open>--serial\<close> exactly when the mode is
  serial; in parallel mode nothing follows the directory.
\<close>

theorem run_benchmark_command_line:
  "events (snd (run_benchmark w smp serial st)) =
     events st @
     (case copy_result (w (ncalls st)) of
        Some e \<Rightarrow> []
      | None \<Rightarrow> [Invoke (EXE_PATH # tmpdir (w (ncalls st)) #
                         (if serial then [ascii ''--serial''] else []))]) @
     [Run (sname smp) serial (fst (run_benchmark w smp serial st))]"
  by (simp add: rb_events build_cmd_def split: option.split)

text \<open>
  Claim C9.  Whatever the copy and the external tool do (success, timeout, any other
  exception), the scratch directory created for a call of \<open>run_benchmark\<close> does not
  exist when the call is left, and no other directory was touched.
\<close>

theorem run_benchmark_removes_scratch:
  "dirs (snd (run_benchmark w smp serial st)) = removeAll (tmpdir (w (ncalls st))) (dirs st)
   \<and> tmpdir (w (ncalls st)) \<notin> set (dirs (snd (run_benchmark w smp serial st)))"
  by (simp add: rb_dirs)

section \<open>The size classes\<close>

lemma spec_bucket_iff:
  "(spec_bucket s = Small) = (s < 100)"
  "(spec_bucket s = Medium) = (100 \<le> s \<and> s < 400)"
  "(spec_bucket s = Large) = (400 \<le> s)"
  by (auto simp: spec_bucket_def)

text \<open>
  Claim C6.  The summaries \<open>main\<close> prints are those of the specification: one per
  non-empty class, in the order small, medium, large, each with the count and the
  arithmetic mean of the speedups of its members, where a size \<open>s\<close> is small iff
  \<open>s < 100\<close>, medium iff \<open>100 \<le> s < 400\<close>, large iff \<open>400 \<le> s\<close>; an empty class has
  no summary.
\<close>

theorem aggregate_refines_spec:
  "aggregate rs = spec_aggregate rs
   \<and> (spec_bucket s = Small) = (s < 100)
   \<and> (spec_bucket s = Medium) = (100 \<le> s \<and> s < 400)
   \<and> (spec_bucket s = Large) = (400 \<le> s)"
  by (simp add: aggregate_def spec_aggregate_def summary_line_def spec_bucket_iff Let_def)

section \<open>The number of runs only grows\<close>

lemma ps_ncalls_mono:
  "process_sample w smp st = (r, st') \<Longrightarrow> ncalls st \<le> ncalls st'"
  by (auto simp: process_sample_def case_prod_beta Let_def rb_ncalls
           split: sum.splits run_result.splits)

lemma ml_step:
  assumes "main_loop w (smp # rest) results st = (r, st')"
    and "process_sample w smp st = (Inr x, st1)"
  shows "\<exists>acc. main_loop w rest acc st1 = (r, st')"
  using assms by (cases x) auto

section \<open>A failing copy\<close>

lemma ps_copy_failure:
  assumes "process_sample w smp st = (r, st')"
    and "ncalls st \<le> i" and "i < ncalls st'" and "copy_result (w i) = Some e"
  shows "r = Inl e \<and> ncalls st' = Suc i"
  using assms
  by (auto simp: process_sample_def case_prod_beta Let_def rb_ncalls rb_fst
                 less_Suc_eq le_Suc_eq
           split: sum.splits run_result.splits option.splits)

lemma ml_copy_failure:
  assumes "main_loop w samples results st = (r, st')"
    and "ncalls st \<le> i" and "i < ncalls st'" and "copy_result (w i) = Some e"
  shows "r = Inl e \<and> ncalls st' = Suc i"
  using assms
proof (induction samples arbitrary: results st)
  case Nil
  then show ?case by simp
next
  case (Cons smp rest)
  obtain r0 st1 where ps: "process_sample w smp st = (r0, st1)"
    by (cases "process_sample w smp st")
  show ?case
  proof (cases "i < ncalls st1")
    case True
    have r0: "r0 = Inl e \<and> ncalls st1 = Suc i"
      using ps Cons.prems(2) True Cons.prems(4) by (rule ps_copy_failure)
    with Cons.prems(1) ps show ?thesis by auto
  next
    case False
    show ?thesis
    proof (cases r0)
      case (Inl e')
      with Cons.prems(1) ps have "st' = st1" by simp
      with False Cons.prems(3) show ?thesis by simp
    next
      case (Inr x)
      with Cons.prems(1) ps obtain acc where ml: "main_loop w rest acc st1 = (r, st')"
        using ml_step by blast
      from False have "ncalls st1 \<le> i" by simp
      with ml show ?thesis using Cons.prems(3,4) by (rule Cons.IH)
    qed
  qed
qed

text \<open>
  Claim C10.  When the copy of the sample into the scratch directory raises, the
  exception leaves \<open>run_benchmark\<close> as it is (it is not turned into an \<open>error\<close>
  dictionary), and \<open>main\<close> ends with that exception: the failing run is the last run of
  the whole benchmark.
\<close>

theorem copy_failure_escapes:
  "(copy_result (w (ncalls st)) = Some e \<longrightarrow>
      fst (run_benchmark w smp serial st) = Inl e)
   \<and> (ncalls st \<le> i \<and> i < ncalls (snd (main d w st)) \<and> copy_result (w i) = Some e \<longrightarrow>
      fst (main d w st) = Inl e \<and> ncalls (snd (main d w st)) = Suc i)"
proof (rule conjI; rule impI)
  assume "copy_result (w (ncalls st)) = Some e"
  then show "fst (run_benchmark w smp serial st) = Inl e" by (simp add: rb_fst)
next
  assume a: "ncalls st \<le> i \<and> i < ncalls (snd (main d w st)) \<and> copy_result (w i) = Some e"
  obtain r st' where ml: "main_loop w (sort_key sname (glob_flac d)) [] st = (r, st')"
    by (cases "main_loop w (sort_key sname (glob_flac d)) [] st")
  have s: "snd (main d w st) = st'"
    using ml by (simp add: main_def Let_def split: sum.splits)
  from a s have b: "ncalls st \<le> i" "i < ncalls st'" "copy_result (w i) = Some e"
    by simp_all
  have "r = Inl e \<and> ncalls st' = Suc i"
    using ml b by (rule ml_copy_failure)
  with ml s show "fst (main d w st) = Inl e \<and> ncalls (snd (main d w st)) = Suc i"
    by (simp add: main_def Let_def)
qed

section \<open>The speedup of a record\<close>

lemma py_float_nonneg: "py_float t = Inr v \<Longrightarrow> 0 \<le> v"
  by (auto simp: py_float_def Let_def split: list.splits if_splits)

lemma extract_lines_nonneg: "extract_lines m ls = Inr (Some v) \<Longrightarrow> 0 \<le> v"
  by (induction ls) (auto split: if_splits option.splits sum.splits dest: py_float_nonneg)

lemma extract_metric_nonneg: "extract_metric output m = Inr (Some v) \<Longrightarrow> 0 \<le> v"
  unfolding extract_metric_def by (rule extract_lines_nonneg)

lemma try_time_nonneg:
  "try_except (try_body r) = RunOk (Some v) s out \<Longrightarrow> 0 \<le> v"
  by (auto simp: try_except_def try_body_def split: sum.splits exn.splits
           dest: extract_metric_nonneg)

lemma rb_time_nonneg:
  "fst (run_benchmark w smp serial st) = Inr (RunOk (Some v) s out) \<Longrightarrow> 0 \<le> v"
  by (auto simp: rb_fst split: option.splits dest: try_time_nonneg)

lemma fmt_2f_Inr: "(fmt_2f x = Inr u) = (\<exists>v. x = Some v)"
  by (cases x) auto

lemma ps_measured:
  "process_sample w smp st = (Inr (Some r), st') \<Longrightarrow> measured r"
  apply (simp add: process_sample_def case_prod_beta Let_def
           split: sum.splits run_result.splits)
  apply (auto simp: print_ok_def compute_speedup_def measured_def fmt_2f_Inr
           split: sum.splits if_splits
           dest!: rb_time_nonneg)
  done

lemma ml_measured:
  "main_loop w samples acc st = (Inr results, st') \<Longrightarrow> \<forall>r\<in>set acc. measured r
     \<Longrightarrow> \<forall>r\<in>set results. measured r"
proof (induction samples arbitrary: acc st)
  case Nil
  then show ?case by simp
next
  case (Cons smp rest)
  obtain r0 st1 where ps: "process_sample w smp st = (r0, st1)"
    by (cases "process_sample w smp st")
  show ?case
  proof (cases r0)
    case (Inl e)
    with Cons.prems ps show ?thesis by simp
  next
    case (Inr x)
    show ?thesis
    proof (cases x)
      case None
      with Inr Cons.prems ps have "main_loop w rest acc st1 = (Inr results, st')" by simp
      then show ?thesis using Cons.prems(2) by (rule Cons.IH)
    next
      case (Some rec)
      with Inr Cons.prems ps
      have ml: "main_loop w rest (acc @ [rec]) st1 = (Inr results, st')" by simp
      from Some Inr ps have "measured rec" by (auto intro: ps_measured)
      with Cons.prems(2) have "\<forall>r\<in>set (acc @ [rec]). measured r" by simp
      with ml show ?thesis by (rule Cons.IH)
    qed
  qed
qed

lemma compute_speedup_present:
  "compute_speedup (Some s) (Some p) = Inr (if p \<noteq> 0 then s / p else 0)"
  by (simp add: compute_speedup_def)

lemma ps_both_ok:
  assumes "fst (run_benchmark w smp True st) = Inr (RunOk (Some s) (Some a) s_out)"
    and "fst (run_benchmark w smp False (snd (run_benchmark w smp True st))) =
           Inr (RunOk (Some p) (Some b) p_out)"
  shows "process_sample w smp st =
           (Inr (Some \<lparr>name = sname smp, size_mb = int (st_size smp) div (1024 * 1024),
                       serial_time = Some s, parallel_time = Some p,
                       serial_speed = Some a, parallel_speed = Some b,
                       speedup = (if 0 < p then s / p else 0)\<rparr>),
            snd (run_benchmark w smp False (snd (run_benchmark w smp True st))))"
proof -
  from assms(2) have "0 \<le> p" by (rule rb_time_nonneg)
  then have "(if p \<noteq> 0 then s / p else 0) = (if 0 < p then s / p else 0)" by auto
  with assms show ?thesis
    by (simp add: process_sample_def case_prod_beta print_ok_def compute_speedup_present)
qed

text \<open>
  Claim C1.  When both runs of a sample return their dictionary with all metrics
  present, the parallel time \<open>p\<close> is not negative and the loop body raises nothing: it
  produces the record of the sample, whose speedup is the serial time divided by \<open>p\<close>
  when \<open>p\<close> is positive and 0 when it is not, and the loop appends that record.  The
  expression that computes the speedup divides exactly when the parallel time is
  present and not zero, and gives 0 when it is zero or absent.  Hence every record in
  the table of a finished run has both elapsed times and the speedup so determined.
\<close>

theorem speedup_ratio:
  "(fst (run_benchmark w smp True st) = Inr (RunOk (Some s) (Some a) s_out)
      \<and> fst (run_benchmark w smp False (snd (run_benchmark w smp True st))) =
          Inr (RunOk (Some p) (Some b) p_out)
    \<longrightarrow> 0 \<le> p
        \<and> process_sample w smp st =
            (Inr (Some \<lparr>name = sname smp, size_mb = int (st_size smp) div (1024 * 1024),
                        serial_time = Some s, parallel_time = Some p,
                        serial_speed = Some a, parallel_speed = Some b,
                        speedup = (if 0 < p then s / p else 0)\<rparr>),
             snd (run_benchmark w smp False (snd (run_benchmark w smp True st))))
        \<and> main_loop w (smp # rest) results st =
            main_loop w rest
              (results @ [\<lparr>name = sname smp, size_mb = int (st_size smp) div (1024 * 1024),
                            serial_time = Some s, parallel_time = Some p,
                            serial_speed = Some a, parallel_speed = Some b,
                            speedup = (if 0 < p then s / p else 0)\<rparr>])
              (snd (run_benchmark w smp False (snd (run_benchmark w smp True st)))))
   \<and> compute_speedup (Some t) (Some q) = Inr (if q \<noteq> 0 then t / q else 0)
   \<and> compute_speedup (Some t) (Some 0) = Inr 0
   \<and> compute_speedup x None = Inr 0
   \<and> (fst (main d w' st') = Inr rep \<and> r \<in> set (table rep)
      \<longrightarrow> (\<exists>s p. serial_time r = Some s \<and> parallel_time r = Some p
             \<and> (0 < p \<longrightarrow> speedup r = s / p) \<and> (p \<le> 0 \<longrightarrow> speedup r = 0)))"
proof (intro conjI impI)
  assume h: "fst (run_benchmark w smp True st) = Inr (RunOk (Some s) (Some a) s_out)
      \<and> fst (run_benchmark w smp False (snd (run_benchmark w smp True st))) =
          Inr (RunOk (Some p) (Some b) p_out)"
  then have h1: "fst (run_benchmark w smp True st) = Inr (RunOk (Some s) (Some a) s_out)"
    and h2: "fst (run_benchmark w smp False (snd (run_benchmark w smp True st))) =
          Inr (RunOk (Some p) (Some b) p_out)"
    by simp_all
  from h2 show "0 \<le> p" by (rule rb_time_nonneg)
  note ps = ps_both_ok[OF h1 h2]
  show "process_sample w smp st =
            (Inr (Some \<lparr>name = sname smp, size_mb = int (st_size smp) div (1024 * 1024),
                        serial_time = Some s, parallel_time = Some p,
                        serial_speed = Some a, parallel_speed = Some b,
                        speedup = (if 0 < p then s / p else 0)\<rparr>),
             snd (run_benchmark w smp False (snd (run_benchmark w smp True st))))"
    by (rule ps)
  show "main_loop w (smp # rest) results st =
            main_loop w rest
              (results @ [\<lparr>name = sname smp, size_mb = int (st_size smp) div (1024 * 1024),
                            serial_time = Some s, parallel_time = Some p,
                            serial_speed = Some a, parallel_speed = Some b,
                            speedup = (if 0 < p then s / p else 0)\<rparr>])
              (snd (run_benchmark w smp False (snd (run_benchmark w smp True st))))"
    by (simp add: ps)
next
  show "compute_speedup (Some t) (Some q) = Inr (if q \<noteq> 0 then t / q else 0)"
    by (rule compute_speedup_present)
next
  show "compute_speedup (Some t) (Some 0) = Inr 0"
    by (simp add: compute_speedup_def)
next
  show "compute_speedup x None = Inr 0"
    by (simp add: compute_speedup_def)
next
  assume a: "fst (main d w' st') = Inr rep \<and> r \<in> set (table rep)"
  obtain res st'' where
    ml: "main_loop w' (sort_key sname (glob_flac d)) [] st' = (res, st'')"
    by (cases "main_loop w' (sort_key sname (glob_flac d)) [] st'")
  with a have res: "res = Inr (table rep)"
    by (auto simp: main_def Let_def split: sum.splits)
  have "\<forall>r\<in>set (table rep). measured r"
    using ml[unfolded res] by (rule ml_measured) simp
  with a have "measured r" by simp
  then show "\<exists>s p. serial_time r = Some s \<and> parallel_time r = Some p
           \<and> (0 < p \<longrightarrow> speedup r = s / p) \<and> (p \<le> 0 \<longrightarrow> speedup r = 0)"
    by (auto simp: measured_def split: option.splits)
qed

section \<open>The trace of the loop\<close>

lemma ps_trace:
  assumes "process_sample w smp st = (r, st')"
  shows "events st' = events st @ new_events st st'"
    and "Run n s oc \<in> set (new_events st st') \<Longrightarrow> n = sname smp"
    and "Run n True oc \<in> set (new_events st st') \<Longrightarrow> run_failed oc
           \<Longrightarrow> Run n False oc' \<notin> set (new_events st st')"
    and "r = Inr (Some rec) \<Longrightarrow> name rec = sname smp
           \<and> (\<exists>oc'. Run (sname smp) False oc' \<in> set (new_events st st'))"
  using assms
  by (auto simp: process_sample_def case_prod_beta Let_def rb_events new_events_def
           split: sum.splits run_result.splits option.splits)

lemma drop_chain:
  assumes "xs = p @ a" and "ys = xs @ b"
  shows "drop (length p) ys = drop (length p) xs @ drop (length xs) ys"
  using assms by simp

lemma ml_trace:
  assumes "main_loop w samples acc st = (r, st')" and "distinct (map sname samples)"
  shows "events st' = events st @ new_events st st'
     \<and> (\<forall>n s oc. Run n s oc \<in> set (new_events st st') \<longrightarrow> n \<in> sname ` set samples)
     \<and> (\<forall>n oc oc'. Run n True oc \<in> set (new_events st st') \<longrightarrow> run_failed oc
           \<longrightarrow> Run n False oc' \<notin> set (new_events st st'))
     \<and> (\<forall>results. r = Inr results \<longrightarrow>
           (\<exists>new. results = acc @ new
              \<and> (\<forall>rec\<in>set new. \<exists>oc'. Run (name rec) False oc' \<in> set (new_events st st'))))"
  using assms
proof (induction samples arbitrary: acc st)
  case Nil
  then show ?case by (auto simp: new_events_def)
next
  case (Cons smp rest)
  obtain r0 st1 where ps: "process_sample w smp st = (r0, st1)"
    by (cases "process_sample w smp st")
  note t = ps_trace[OF ps]
  show ?case
  proof (cases r0)
    case (Inl e)
    with Cons.prems(1) ps have eq: "st' = st1" "r = Inl e" by simp_all
    show ?thesis unfolding eq using t(1) t(2) t(3) by auto
  next
    case (Inr x)
    define acc' where "acc' = (case x of None \<Rightarrow> acc | Some rec \<Rightarrow> acc @ [rec])"
    from Inr Cons.prems(1) ps have ml: "main_loop w rest acc' st1 = (r, st')"
      by (cases x) (simp_all add: acc'_def)
    from Cons.prems(2) have d: "distinct (map sname rest)" "sname smp \<notin> sname ` set rest"
      by simp_all
    note ih = Cons.IH[OF ml d(1)]
    from ih have p: "events st' = events st1 @ new_events st1 st'" by blast
    have ev: "new_events st st' = new_events st st1 @ new_events st1 st'"
      unfolding new_events_def using t(1) p by (rule drop_chain)
    have 1: "events st' = events st @ new_events st st'"
      using t(1) ih ev by simp
    have 2: "\<forall>n s oc. Run n s oc \<in> set (new_events st st') \<longrightarrow> n \<in> sname ` set (smp # rest)"
      using t(2) ih ev by auto
    have 3: "\<forall>n oc oc'. Run n True oc \<in> set (new_events st st') \<longrightarrow> run_failed oc
           \<longrightarrow> Run n False oc' \<notin> set (new_events st st')"
    proof (intro allI impI)
      fix n oc oc'
      assume a: "Run n True oc \<in> set (new_events st st')" and f: "run_failed oc"
      from a ev consider "Run n True oc \<in> set (new_events st st1)"
        | "Run n True oc \<in> set (new_events st1 st')" by auto
      then show "Run n False oc' \<notin> set (new_events st st')"
      proof cases
        case 1
        then have n: "n = sname smp" by (rule t(2))
        have "Run n False oc' \<notin> set (new_events st st1)" using 1 f by (rule t(3))
        moreover have "Run n False oc' \<notin> set (new_events st1 st')"
          using ih d(2) n by blast
        ultimately show ?thesis using ev by simp
      next
        case 2
        then have "n \<in> sname ` set rest" using ih by blast
        with d(2) have "n \<noteq> sname smp" by blast
        then have "Run n False oc' \<notin> set (new_events st st1)" using t(2) by blast
        moreover have "Run n False oc' \<notin> set (new_events st1 st')"
          using ih 2 f by blast
        ultimately show ?thesis using ev by simp
      qed
    qed
    have 4: "\<forall>results. r = Inr results \<longrightarrow>
           (\<exists>new. results = acc @ new
              \<and> (\<forall>rec\<in>set new. \<exists>oc'. Run (name rec) False oc' \<in> set (new_events st st')))"
    proof (intro allI impI)
      fix results assume "r = Inr results"
      with ih obtain new where new: "results = acc' @ new"
        "\<forall>rec\<in>set new. \<exists>oc'. Run (name rec) False oc' \<in> set (new_events st1 st')"
        by blast
      show "\<exists>new. results = acc @ new
              \<and> (\<forall>rec\<in>set new. \<exists>oc'. Run (name rec) False oc' \<in> set (new_events st st'))"
      proof (cases x)
        case None
        with new ev show ?thesis by (auto simp: acc'_def)
      next
        case (Some rec)
        with Inr have "r0 = Inr (Some rec)" by simp
        from t(4)[OF this] have "\<exists>oc'. Run (name rec) False oc' \<in> set (new_events st st1)"
          by auto
        with new ev Some show ?thesis
          by (intro exI[of _ "rec # new"]) (auto simp: acc'_def)
      qed
    qed
    from 1 2 3 4 show ?thesis by blast
  qed
qed

text \<open>
  Claim C7.  In a run of \<open>main\<close> over samples with distinct names, a sample whose
  serial run failed (raised, or returned the \<open>error\<close> dictionary) has no parallel run
  anywhere in the trace, and no record in the table from which the summaries of the
  size classes are computed.
\<close>

theorem serial_failure_short_circuits:
  assumes "distinct (map sname (glob_flac d))"
    and "Run n True oc \<in> set (new_events st (snd (main d w st)))"
    and "run_failed oc"
  shows "Run n False oc' \<notin> set (new_events st (snd (main d w st)))
     \<and> (fst (main d w st) = Inr rep \<longrightarrow>
          n \<notin> name ` set (table rep) \<and> summaries rep = aggregate (table rep))"
proof -
  let ?samples = "sort_key sname (glob_flac d)"
  obtain r st' where ml: "main_loop w ?samples [] st = (r, st')"
    by (cases "main_loop w ?samples [] st")
  have s: "snd (main d w st) = st'"
    using ml by (simp add: main_def Let_def split: sum.splits)
  from assms(1) have "distinct (map sname ?samples)"
    by (simp add: distinct_map)
  note tr = ml_trace[OF ml this]
  from assms(2) s have a: "Run n True oc \<in> set (new_events st st')" by simp
  have no_par: "\<And>oc'. Run n False oc' \<notin> set (new_events st st')"
    using tr a assms(3) by blast
  have "n \<notin> name ` set (table rep) \<and> summaries rep = aggregate (table rep)"
    if rep: "fst (main d w st) = Inr rep"
  proof -
    from rep ml have r: "r = Inr (table rep)" and su: "summaries rep = aggregate (table rep)"
      by (auto simp: main_def Let_def split: sum.splits)
    from tr r
    have "\<forall>rec\<in>set (table rep). \<exists>oc'. Run (name rec) False oc' \<in> set (new_events st st')"
      by auto
    with no_par have "n \<notin> name ` set (table rep)" by blast
    with su show ?thesis by simp
  qed
  with no_par s show ?thesis by simp
qed

section \<open>Which line decides the extractor\<close>



section \<open>A missing samples directory\<close>

text \<open>
  Claim C4, as amended.  When the samples directory does not exist, the enumeration is
  empty and nothing is raised: \<open>main\<close> reports zero samples, an empty table and no
  summary, and starts no run.
\<close>

theorem missing_directory_is_empty:
  "glob_flac None = []
   \<and> main None w st = (Inr \<lparr>found = 0, table = [], summaries = []\<rparr>, st)"
  by (simp add: glob_flac_def main_def aggregate_def summary_line_def)

section \<open>The example runs, evaluated\<close>

lemmas eval_text = tool_output_def label_time_def label_speed_def extract_metric_def ascii_def
  strip_commas_def re_search_num_def is_num_char_def is_digit_def py_float_def digits_val_def

lemmas eval_run = main_def process_sample_def run_benchmark_def with_TemporaryDirectory_def
  world_of_def env_ok_def env_raises_def st_init_def print_ok_def compute_speedup_def
  aggregate_def summary_line_def sample_a_def sample_b_def row_def

lemma samples_corpus: "sort_key sname (glob_flac corpus) = [sample_a, sample_b]"
  by (simp add: corpus_def sample_a_def sample_b_def glob_flac_def ends_with_def ascii_def)

lemma try_serial:
  "try_except (try_body (Inr (tool_output ''10.0'' ''5.5''))) =
     RunOk (Some 10) (Some (11 / 2)) (tool_output ''10.0'' ''5.5'')"
  by (simp add: try_except_def try_body_def eval_text)

lemma try_parallel:
  "try_except (try_body (Inr (tool_output ''4.0'' ''1,234.5''))) =
     RunOk (Some 4) (Some (2469 / 2)) (tool_output ''4.0'' ''1,234.5'')"
  by (simp add: try_except_def try_body_def eval_text)

lemma try_no_time:
  "try_except (try_body (Inr output_no_time)) = RunOk None (Some (11 / 2)) output_no_time"
  by (simp add: try_except_def try_body_def output_no_time_def eval_text)

lemma try_timeout: "try_except (try_body (Inl TimeoutExpired)) = RunError (ascii ''Timeout'')"
  by (simp add: try_except_def try_body_def)

lemma main_world_ok:
  "fst (main corpus world_ok st_init) =
     Inr \<lparr>found = 2, table = [row ''a.flac'' 50, row ''b.flac'' 150],
          summaries = [\<lparr>label = Small, count = 1, mean_speedup = 5 / 2\<rparr>,
                       \<lparr>label = Medium, count = 1, mean_speedup = 5 / 2\<rparr>]\<rparr>"
  by (simp add: eval_run samples_corpus world_ok_def try_serial try_parallel)

lemma main_world_timeout:
  "main corpus world_timeout st_init =
     (Inr \<lparr>found = 2, table = [row ''b.flac'' 150],
           summaries = [\<lparr>label = Medium, count = 1, mean_speedup = 5 / 2\<rparr>]\<rparr>,
      \<lparr>ncalls = 3, dirs = [],
       events =
         [Invoke (build_cmd (ascii ''/tmp/s0'') True),
          Run (ascii ''a.flac'') True (Inr (RunError (ascii ''Timeout''))),
          Invoke (build_cmd (ascii ''/tmp/s1'') True),
          Run (ascii ''b.flac'') True
            (Inr (RunOk (Some 10) (Some (11 / 2)) (tool_output ''10.0'' ''5.5''))),
          Invoke (build_cmd (ascii ''/tmp/s2'') False),
          Run (ascii ''b.flac'') False
            (Inr (RunOk (Some 4) (Some (2469 / 2)) (tool_output ''4.0'' ''1,234.5'')))]\<rparr>)"
  by (simp add: eval_run samples_corpus world_timeout_def try_serial try_parallel try_timeout)

lemma main_world_copy_fails:
  "main corpus world_copy_fails st_init =
     (Inl copy_error,
      \<lparr>ncalls = 1, dirs = [], events = [Run (ascii ''a.flac'') True (Inl copy_error)]\<rparr>)"
  by (simp add: eval_run samples_corpus world_copy_fails_def)

lemma st_init_sel: "ncalls st_init = 0" "dirs st_init = []" "events st_init = []"
  by (simp_all add: st_init_def)

lemma try_zero:
  "try_except (try_body (Inr (tool_output ''0.00'' ''5.5''))) =
     RunOk (Some 0) (Some (11 / 2)) (tool_output ''0.00'' ''5.5'')"
  by (simp add: try_except_def try_body_def eval_text)

lemma zero_serial:
  "fst (run_benchmark world_zero sample_a True st_init) =
     Inr (RunOk (Some 10) (Some (11 / 2)) (tool_output ''10.0'' ''5.5''))"
  by (simp add: rb_fst st_init_sel world_zero_def world_of_def env_ok_def try_serial)

lemma zero_parallel:
  "fst (run_benchmark world_zero sample_a False
          (snd (run_benchmark world_zero sample_a True st_init))) =
     Inr (RunOk (Some 0) (Some (11 / 2)) (tool_output ''0.00'' ''5.5''))"
  by (simp add: rb_fst rb_ncalls st_init_sel world_zero_def world_of_def env_ok_def try_zero)

text \<open>
  Witness of C1: in the run where the parallel run of \<open>a.flac\<close> reports 0 s, nothing is
  raised and the record of \<open>a.flac\<close> is produced with speedup 0; in the run where both
  samples report 10 s and 4 s, the record of \<open>a.flac\<close> in the table has the speedup
  10 / 4.
\<close>

theorem speedup_ratio_witness:
  "fst (run_benchmark world_zero sample_a True st_init) =
     Inr (RunOk (Some 10) (Some (11 / 2)) (tool_output ''10.0'' ''5.5''))
   \<and> fst (run_benchmark world_zero sample_a False
            (snd (run_benchmark world_zero sample_a True st_init))) =
       Inr (RunOk (Some 0) (Some (11 / 2)) (tool_output ''0.00'' ''5.5''))
   \<and> fst (process_sample world_zero sample_a st_init) =
       Inr (Some \<lparr>name = ascii ''a.flac'', size_mb = 50,
                  serial_time = Some 10, parallel_time = Some 0,
                  serial_speed = Some (11 / 2), parallel_speed = Some (11 / 2),
                  speedup = 0\<rparr>)
   \<and> compute_speedup (Some 10) (Some 0) = Inr 0
   \<and> compute_speedup (Some 10) (Some 4) = Inr (10 / 4)
   \<and> fst (main corpus world_ok st_init) =
       Inr \<lparr>found = 2, table = [row ''a.flac'' 50, row ''b.flac'' 150],
            summaries = [\<lparr>label = Small, count = 1, mean_speedup = 5 / 2\<rparr>,
                         \<lparr>label = Medium, count = 1, mean_speedup = 5 / 2\<rparr>]\<rparr>
   \<and> row ''a.flac'' 50 \<in> set [row ''a.flac'' 50, row ''b.flac'' 150]
   \<and> serial_time (row ''a.flac'' 50) = Some 10
   \<and> parallel_time (row ''a.flac'' 50) = Some 4
   \<and> speedup (row ''a.flac'' 50) = 10 / 4"
proof -
  let ?rep = "\<lparr>found = 2, table = [row ''a.flac'' 50, row ''b.flac'' 150],
          summaries = [\<lparr>label = Small, count = 1, mean_speedup = 5 / 2\<rparr>,
                       \<lparr>label = Medium, count = 1, mean_speedup = 5 / 2\<rparr>]\<rparr>"
  have m: "fst (main corpus world_ok st_init) = Inr ?rep" by (rule main_world_ok)
  have r: "row ''a.flac'' 50 \<in> set (table ?rep)" by simp
  have t: "serial_time (row ''a.flac'' 50) = Some 10" "parallel_time (row ''a.flac'' 50) = Some 4"
    by (simp_all add: row_def)
  note th = speedup_ratio[of world_zero sample_a st_init 10 "11 / 2" "tool_output ''10.0'' ''5.5''"
      0 "11 / 2" "tool_output ''0.00'' ''5.5''" "[]" "[]" 10 4 "Some 10"
      corpus world_ok st_init ?rep "row ''a.flac'' 50"]
  from th zero_serial zero_parallel
  have z: "fst (process_sample world_zero sample_a st_init) =
       Inr (Some \<lparr>name = ascii ''a.flac'', size_mb = 50,
                  serial_time = Some 10, parallel_time = Some 0,
                  serial_speed = Some (11 / 2), parallel_speed = Some (11 / 2),
                  speedup = 0\<rparr>)"
    by (simp add: sample_a_def)
  from th have c: "compute_speedup (Some 10) (Some 0) = Inr 0"
    "compute_speedup (Some 10) (Some 4) = Inr (10 / 4)"
    by simp_all
  from th m r t have sp: "speedup (row ''a.flac'' 50) = 10 / 4"
    by auto
  from zero_serial zero_parallel z c m t sp show ?thesis by simp
qed

text \<open>
  Witness of C7: the serial run of \<open>a.flac\<close> times out; the trace has no parallel run of
  \<open>a.flac\<close>, the table holds \<open>b.flac\<close> only.
\<close>

theorem serial_failure_short_circuits_witness:
  "distinct (map sname (glob_flac corpus))
   \<and> Run (ascii ''a.flac'') True (Inr (RunError (ascii ''Timeout'')))
        \<in> set (new_events st_init (snd (main corpus world_timeout st_init)))
   \<and> run_failed (Inr (RunError (ascii ''Timeout'')))
   \<and> Run (ascii ''a.flac'') False (Inr (RunError (ascii ''Timeout'')))
        \<notin> set (new_events st_init (snd (main corpus world_timeout st_init)))
   \<and> fst (main corpus world_timeout st_init) =
        Inr \<lparr>found = 2, table = [row ''b.flac'' 150],
             summaries = [\<lparr>label = Medium, count = 1, mean_speedup = 5 / 2\<rparr>]\<rparr>
   \<and> ascii ''a.flac'' \<notin> name ` set [row ''b.flac'' 150]"
proof -
  let ?rep = "\<lparr>found = 2, table = [row ''b.flac'' 150],
             summaries = [\<lparr>label = Medium, count = 1, mean_speedup = 5 / 2\<rparr>]\<rparr>"
  have d: "distinct (map sname (glob_flac corpus))"
    by (simp add: corpus_def sample_a_def sample_b_def glob_flac_def ends_with_def ascii_def)
  have e: "Run (ascii ''a.flac'') True (Inr (RunError (ascii ''Timeout'')))
        \<in> set (new_events st_init (snd (main corpus world_timeout st_init)))"
    by (simp add: main_world_timeout new_events_def st_init_sel)
  have f: "run_failed (Inr (RunError (ascii ''Timeout'')))" by simp
  have m: "fst (main corpus world_timeout st_init) = Inr ?rep"
    by (simp add: main_world_timeout)
  from serial_failure_short_circuits[OF d e f, of "Inr (RunError (ascii ''Timeout''))" ?rep] m
  have "Run (ascii ''a.flac'') False (Inr (RunError (ascii ''Timeout'')))
        \<notin> set (new_events st_init (snd (main corpus world_timeout st_init)))"
    "ascii ''a.flac'' \<notin> name ` set [row ''b.flac'' 150]"
    by simp_all
  with d e f m show ?thesis by simp
qed

text \<open>
  Witness of C10: the copy of the first sample raises; the exception leaves
  \<open>run_benchmark\<close> and \<open>main\<close>, and \<open>b.flac\<close> is never run.
\<close>

theorem copy_failure_escapes_witness:
  "copy_result (world_copy_fails (ncalls st_init)) = Some copy_error
   \<and> fst (run_benchmark world_copy_fails sample_a True st_init) = Inl copy_error
   \<and> ncalls st_init \<le> 0
   \<and> 0 < ncalls (snd (main corpus world_copy_fails st_init))
   \<and> copy_result (world_copy_fails 0) = Some copy_error
   \<and> fst (main corpus world_copy_fails st_init) = Inl copy_error
   \<and> ncalls (snd (main corpus world_copy_fails st_init)) = Suc 0"
proof -
  have c: "copy_result (world_copy_fails (ncalls st_init)) = Some copy_error"
    "copy_result (world_copy_fails 0) = Some copy_error"
    by (simp_all add: world_copy_fails_def world_of_def st_init_sel)
  have n: "ncalls st_init \<le> 0 \<and> 0 < ncalls (snd (main corpus world_copy_fails st_init))
           \<and> copy_result (world_copy_fails 0) = Some copy_error"
    using c by (simp add: main_world_copy_fails st_init_sel)
  from copy_failure_escapes[of world_copy_fails st_init copy_error sample_a True 0 corpus] c n
  show ?thesis by (simp add: st_init_sel)
qed



text \<open>
  Counterexample to C4 as stated: with no samples directory \<open>main\<close> raises nothing; it
  returns the report of an empty corpus and leaves the state as it was.
\<close>

theorem missing_directory_counterexample:
  "fst (main None world_ok st_init) = Inr \<lparr>found = 0, table = [], summaries = []\<rparr>
   \<and> snd (main None world_ok st_init) = st_init"
  by (simp add: glob_flac_def main_def aggregate_def summary_line_def)

section \<open>Where the script does not do what is claimed\<close>

text \<open>
  Claim C2 fails on the code.  The pattern accepts any run of digits and full stops,
  and \<open>float\<close> raises \<open>ValueError\<close> on the runs that are not numbers: on a label line
  with an ellipsis before the number, and on a label line that starts with a version,
  \<open>extract_metric\<close> raises where the claim says absent.
\<close>

theorem extract_metric_raises_on_malformed_token:
  "extract_metric output_ellipsis label_time = Inl (ValueError (float_msg (ascii ''...'')))
   \<and> extract_metric output_version label_time = Inl (ValueError (float_msg (ascii ''1.2.3'')))"
  by (simp add: output_ellipsis_def output_version_def eval_text)

text \<open>
  What the tool raises, the timeout included, is caught and becomes the \<open>error\<close>
  dictionary, and a sample whose serial run returned it is passed over.
\<close>

lemma tool_exception_is_caught: "\<exists>m. try_except (try_body (Inl e)) = RunError m"
  by (cases e) (simp_all add: try_except_def try_body_def)

lemma error_result_continues:
  "fst (run_benchmark w smp True st) = Inr (RunError m) \<Longrightarrow>
     process_sample w smp st = (Inr None, snd (run_benchmark w smp True st))"
  by (simp add: process_sample_def case_prod_beta)

text \<open>
  Claim C3 fails on the code for an absent metric.  The serial output of \<open>a.flac\<close> has
  no run-time line, so the extracted time is \<open>None\<close>; the success line formats it with
  \<open>:.2f\<close>, which raises \<open>TypeError\<close>, and the exception ends \<open>main\<close>: after one run the
  benchmark is over, and \<open>b.flac\<close> is never run.
\<close>

theorem absent_metric_aborts_run:
  "extract_metric output_no_time label_time = Inr None
   \<and> main corpus world_no_time st_init =
     (Inl (TypeError (ascii ''unsupported format string passed to NoneType.__format__'')),
      \<lparr>ncalls = 1, dirs = [],
       events =
         [Invoke (build_cmd (ascii ''/tmp/s0'') True),
          Run (ascii ''a.flac'') True (Inr (RunOk None (Some (11 / 2)) output_no_time))]\<rparr>)"
proof -
  have "extract_metric output_no_time label_time = Inr None"
    by (simp add: output_no_time_def eval_text)
  moreover have "main corpus world_no_time st_init =
     (Inl (TypeError (ascii ''unsupported format string passed to NoneType.__format__'')),
      \<lparr>ncalls = 1, dirs = [],
       events =
         [Invoke (build_cmd (ascii ''/tmp/s0'') True),
          Run (ascii ''a.flac'') True (Inr (RunOk None (Some (11 / 2)) output_no_time))]\<rparr>)"
    by (simp add: eval_run samples_corpus world_no_time_def try_no_time)
  ultimately show ?thesis by simp
qed

end
